theory Spec2Isabelle
  imports Main "HOL-Library.Word"
begin

section \<open>The wallet's peer request cache (chia/wallet/util/peer\_request\_cache.py)\<close>

subsection \<open>Primitive data\<close>

text \<open>
  \<open>uint32\<close> and \<open>uint64\<close> are the fixed-width unsigned integers of \<open>chia.util.ints\<close>;
  the module only stores and compares them. \<open>bytes32\<close> is a 32-byte digest; the
  module never looks inside one, so it is a byte string here.
\<close>

type_synonym uint32 = "32 word"
type_synonym uint64 = "64 word"
type_synonym bytes = "8 word list"
type_synonym bytes32 = "8 word list"

subsection \<open>The bounded cache\<close>

text \<open>
  Modelled from the spec: the class \<open>LRUCache\<close> of \<open>chia.util.lru_cache\<close>, which the
  module imports and whose source is not part of the sources at hand. The spec
  describes it as a fixed-capacity associative cache with a recency-based eviction
  policy, with \<open>new(capacity)\<close>, \<open>get(key)\<close>, \<open>put(key, value)\<close>, enumerable
  (key, value) pairs and a read-only \<open>capacity\<close>.

  The entries are kept as an association list from the least recently used entry to
  the most recently used one, which is also the order in which \<open>cache.items()\<close>
  enumerates them. A lookup that hits refreshes the entry's recency; an insertion
  makes the entry the most recent one and, when the cache then holds more entries than
  its capacity, evicts the least recently used entry.
\<close>

record ('k, 'v) LRUCache =
  cache :: "('k \<times> 'v) list"
  capacity :: nat

text \<open>Modelled from the spec: \<open>new(capacity)\<close>, an empty cache of the given capacity.\<close>

definition LRUCache_init :: "nat \<Rightarrow> ('k, 'v) LRUCache" where
  "LRUCache_init n = \<lparr>cache = [], capacity = n\<rparr>"

text \<open>
  Modelled from the spec: the recency update shared by \<open>get\<close> and \<open>put\<close>; the entry of
  the key becomes the most recently used one.
\<close>

definition move_to_end :: "'k \<Rightarrow> 'v \<Rightarrow> ('k \<times> 'v) list \<Rightarrow> ('k \<times> 'v) list" where
  "move_to_end k v xs = filter (\<lambda>p. fst p \<noteq> k) xs @ [(k, v)]"

text \<open>
  Modelled from the spec: \<open>get(key)\<close>.
  \<open>get\<close> returns the stored value and the cache with the entry's recency refreshed.
  \<open>None\<close> is a miss; a hit on a value \<open>v\<close> is \<open>Some v\<close>. (In Python both a miss and a
  hit on a stored \<open>None\<close> are the object \<open>None\<close>; the callers below that test
  \<open>is not None\<close> spell both cases out.)
\<close>

definition LRUCache_get :: "'k \<Rightarrow> ('k, 'v) LRUCache \<Rightarrow> 'v option \<times> ('k, 'v) LRUCache" where
  "LRUCache_get k lc =
     (case map_of (cache lc) k of
        None \<Rightarrow> (None, lc)
      | Some v \<Rightarrow> (Some v, lc\<lparr>cache := move_to_end k v (cache lc)\<rparr>))"

text \<open>
  Modelled from the spec: \<open>put(key, value)\<close>. The entry becomes the most recently used
  one; if the cache then holds more entries than its capacity, the least recently used
  entry is evicted.
\<close>

definition LRUCache_put :: "'k \<Rightarrow> 'v \<Rightarrow> ('k, 'v) LRUCache \<Rightarrow> ('k, 'v) LRUCache" where
  "LRUCache_put k v lc =
     (let xs = move_to_end k v (cache lc)
      in lc\<lparr>cache := (if capacity lc < length xs then tl xs else xs)\<rparr>)"

text \<open>The key-to-value contents of a cache, without the recency order.\<close>

definition contents :: "('k, 'v) LRUCache \<Rightarrow> 'k \<Rightarrow> 'v option" where
  "contents lc = map_of (cache lc)"

text \<open>
  The representation invariant of a cache: keys are unique (it is a dictionary) and
  there are never more entries than the capacity.
\<close>

definition LRUCache_inv :: "('k, 'v) LRUCache \<Rightarrow> bool" where
  "LRUCache_inv lc = (distinct (map fst (cache lc)) \<and> length (cache lc) \<le> capacity lc)"

subsection \<open>Blocks and coin states\<close>

text \<open>
  Modelled from the spec: the header-block and coin-state records, whose declarations
  (\<open>chia.types.header_block\<close>, \<open>chia.protocols.wallet_protocol\<close>) are not part of the
  sources at hand. Each record has the attributes the module reads. The three leaves
  that \<open>_calculate_sig_hash_from_block\<close> passes to \<open>bytes(...)\<close> are held as their
  serialisations; a coin state has optional created and spent heights, and its \<open>coin\<close>
  is held as a byte string.
\<close>

record ProofOfSpace =
  plot_public_key :: bytes

record RewardChainBlock =
  proof_of_space :: ProofOfSpace

record Foliage =
  foliage_block_data :: bytes
  foliage_block_data_signature :: bytes

record FoliageTransactionBlock =
  timestamp :: uint64

record HeaderBlock =
  height :: uint32
  is_transaction_block :: bool
  foliage_transaction_block :: "FoliageTransactionBlock option"
  reward_chain_block :: RewardChainBlock
  foliage :: Foliage

record CoinState =
  coin :: bytes
  spent_height :: "uint32 option"
  created_height :: "uint32 option"

datatype error = AssertionError

subsection \<open>PeerRequestCache\<close>

record ('task, 'ses) PeerRequestCache =
  blocks :: "(uint32, HeaderBlock) LRUCache"
  block_requests :: "(uint32 \<times> uint32, 'task) LRUCache"
  ses_requests :: "(uint32, 'ses) LRUCache"
  states_validated :: "(bytes32, uint32 option) LRUCache"
  timestamps :: "(uint32, uint64) LRUCache"
  blocks_validated :: "(bytes32, uint32) LRUCache"
  block_signatures_validated :: "(bytes32, uint32) LRUCache"

definition PeerRequestCache_init :: "('task, 'ses) PeerRequestCache" where
  "PeerRequestCache_init =
     \<lparr>blocks = LRUCache_init 100,
      block_requests = LRUCache_init 100,
      ses_requests = LRUCache_init 100,
      states_validated = LRUCache_init 1000,
      timestamps = LRUCache_init 1000,
      blocks_validated = LRUCache_init 1000,
      block_signatures_validated = LRUCache_init 1000\<rparr>"

definition get_block ::
  "uint32 \<Rightarrow> ('task, 'ses) PeerRequestCache \<Rightarrow> HeaderBlock option \<times> ('task, 'ses) PeerRequestCache" where
  "get_block h c = (let (r, b) = LRUCache_get h (blocks c) in (r, c\<lparr>blocks := b\<rparr>))"

text \<open>
  \<open>add_to_blocks\<close> stores the block first; the assertion comes after that, so a failed
  assertion leaves the block stored. The result is the outcome together with the state.
\<close>

definition add_to_blocks ::
  "HeaderBlock \<Rightarrow> ('task, 'ses) PeerRequestCache \<Rightarrow> (error + unit) \<times> ('task, 'ses) PeerRequestCache" where
  "add_to_blocks header_block c =
     (let c1 = c\<lparr>blocks := LRUCache_put (height header_block) header_block (blocks c)\<rparr>
      in if is_transaction_block header_block then
           (case foliage_transaction_block header_block of
              None \<Rightarrow> (Inl AssertionError, c1)
            | Some ftb \<Rightarrow>
                (let (r, t) = LRUCache_get (height header_block) (timestamps c1)
                 in if r = None
                    then (Inr (), c1\<lparr>timestamps := LRUCache_put (height header_block) (timestamp ftb) t\<rparr>)
                    else (Inr (), c1\<lparr>timestamps := t\<rparr>)))
         else (Inr (), c1))"

definition get_block_request ::
  "uint32 \<Rightarrow> uint32 \<Rightarrow> ('task, 'ses) PeerRequestCache \<Rightarrow> 'task option \<times> ('task, 'ses) PeerRequestCache" where
  "get_block_request start end c =
     (let (r, b) = LRUCache_get (start, end) (block_requests c) in (r, c\<lparr>block_requests := b\<rparr>))"

definition add_to_block_requests ::
  "uint32 \<Rightarrow> uint32 \<Rightarrow> 'task \<Rightarrow> ('task, 'ses) PeerRequestCache \<Rightarrow> ('task, 'ses) PeerRequestCache" where
  "add_to_block_requests start end request c =
     c\<lparr>block_requests := LRUCache_put (start, end) request (block_requests c)\<rparr>"

definition get_ses_request ::
  "uint32 \<Rightarrow> ('task, 'ses) PeerRequestCache \<Rightarrow> 'ses option \<times> ('task, 'ses) PeerRequestCache" where
  "get_ses_request h c =
     (let (r, b) = LRUCache_get h (ses_requests c) in (r, c\<lparr>ses_requests := b\<rparr>))"

definition add_to_ses_requests ::
  "uint32 \<Rightarrow> 'ses \<Rightarrow> ('task, 'ses) PeerRequestCache \<Rightarrow> ('task, 'ses) PeerRequestCache" where
  "add_to_ses_requests h ses c = c\<lparr>ses_requests := LRUCache_put h ses (ses_requests c)\<rparr>"

text \<open>
  \<open>in_states_validated\<close> is \<open>self._states_validated.get(coin_state_hash) is not None\<close>.
  The values of this cache are optional heights, so the lookup has three outcomes: a
  miss, a hit on a stored \<open>None\<close>, and a hit on a height. Python's \<open>get\<close> returns
  \<open>None\<close> in the first two.
\<close>

definition in_states_validated ::
  "bytes32 \<Rightarrow> ('task, 'ses) PeerRequestCache \<Rightarrow> bool \<times> ('task, 'ses) PeerRequestCache" where
  "in_states_validated coin_state_hash c =
     (let (r, b) = LRUCache_get coin_state_hash (states_validated c)
      in ((case r of None \<Rightarrow> False | Some None \<Rightarrow> False | Some (Some h) \<Rightarrow> True),
          c\<lparr>states_validated := b\<rparr>))"

text \<open>The height that \<open>add_to_states_validated\<close> computes in \<open>cs_height\<close>.\<close>

definition cs_height :: "CoinState \<Rightarrow> uint32 option" where
  "cs_height coin_state =
     (if spent_height coin_state \<noteq> None then spent_height coin_state
      else if created_height coin_state \<noteq> None then created_height coin_state
      else None)"

text \<open>
  \<open>coin_state.get_hash()\<close> is the hash of the coin state's serialisation; the hash
  function is a parameter, \<open>get_hash\<close>.
\<close>

definition add_to_states_validated ::
  "(CoinState \<Rightarrow> bytes32) \<Rightarrow> CoinState \<Rightarrow> ('task, 'ses) PeerRequestCache \<Rightarrow> ('task, 'ses) PeerRequestCache" where
  "add_to_states_validated get_hash coin_state c =
     c\<lparr>states_validated := LRUCache_put (get_hash coin_state) (cs_height coin_state) (states_validated c)\<rparr>"

definition get_height_timestamp ::
  "uint32 \<Rightarrow> ('task, 'ses) PeerRequestCache \<Rightarrow> uint64 option \<times> ('task, 'ses) PeerRequestCache" where
  "get_height_timestamp h c =
     (let (r, b) = LRUCache_get h (timestamps c) in (r, c\<lparr>timestamps := b\<rparr>))"

definition add_to_blocks_validated ::
  "bytes32 \<Rightarrow> uint32 \<Rightarrow> ('task, 'ses) PeerRequestCache \<Rightarrow> ('task, 'ses) PeerRequestCache" where
  "add_to_blocks_validated reward_chain_hash h c =
     c\<lparr>blocks_validated := LRUCache_put reward_chain_hash h (blocks_validated c)\<rparr>"

definition in_blocks_validated ::
  "bytes32 \<Rightarrow> ('task, 'ses) PeerRequestCache \<Rightarrow> bool \<times> ('task, 'ses) PeerRequestCache" where
  "in_blocks_validated reward_chain_hash c =
     (let (r, b) = LRUCache_get reward_chain_hash (blocks_validated c)
      in (r \<noteq> None, c\<lparr>blocks_validated := b\<rparr>))"

text \<open>\<open>std_hash\<close> is the hash primitive of \<open>chia.util.hash\<close>, a parameter.\<close>

definition calculate_sig_hash_from_block :: "(bytes \<Rightarrow> bytes32) \<Rightarrow> HeaderBlock \<Rightarrow> bytes32" where
  "calculate_sig_hash_from_block std_hash block =
     std_hash (plot_public_key (proof_of_space (reward_chain_block block))
               @ foliage_block_data (foliage block)
               @ foliage_block_data_signature (foliage block))"

definition add_to_block_signatures_validated ::
  "(bytes \<Rightarrow> bytes32) \<Rightarrow> HeaderBlock \<Rightarrow> ('task, 'ses) PeerRequestCache \<Rightarrow> ('task, 'ses) PeerRequestCache" where
  "add_to_block_signatures_validated std_hash block c =
     (let sig_hash = calculate_sig_hash_from_block std_hash block
      in c\<lparr>block_signatures_validated :=
             LRUCache_put sig_hash (height block) (block_signatures_validated c)\<rparr>)"

definition in_block_signatures_validated ::
  "(bytes \<Rightarrow> bytes32) \<Rightarrow> HeaderBlock \<Rightarrow> ('task, 'ses) PeerRequestCache \<Rightarrow> bool \<times> ('task, 'ses) PeerRequestCache" where
  "in_block_signatures_validated std_hash block c =
     (let sig_hash = calculate_sig_hash_from_block std_hash block;
          (r, b) = LRUCache_get sig_hash (block_signatures_validated c)
      in (r \<noteq> None, c\<lparr>block_signatures_validated := b\<rparr>))"

text \<open>
  Each of the seven loops of \<open>clear_after_height\<close> makes a new cache of the old one's
  capacity and puts into it, in the order of \<open>cache.items()\<close>, the entries that pass
  the loop's test. \<open>rebuild\<close> is that loop, with the test as \<open>keep\<close>.
\<close>

definition rebuild :: "('k \<Rightarrow> 'v \<Rightarrow> bool) \<Rightarrow> ('k, 'v) LRUCache \<Rightarrow> ('k, 'v) LRUCache" where
  "rebuild keep lc =
     foldl (\<lambda>new (k, v). if keep k v then LRUCache_put k v new else new)
           (LRUCache_init (capacity lc)) (cache lc)"

text \<open>The tests of the seven loops; the cutoff is a Python \<open>int\<close>.\<close>

definition keep_key :: "int \<Rightarrow> uint32 \<Rightarrow> 'v \<Rightarrow> bool" where
  "keep_key h k v = (uint k \<le> h)"

definition keep_range :: "int \<Rightarrow> uint32 \<times> uint32 \<Rightarrow> 'v \<Rightarrow> bool" where
  "keep_range h k v = (uint (fst k) \<le> h \<and> uint (snd k) \<le> h)"

definition keep_state :: "int \<Rightarrow> 'k \<Rightarrow> uint32 option \<Rightarrow> bool" where
  "keep_state h k v = (case v of None \<Rightarrow> False | Some x \<Rightarrow> uint x \<le> h)"

definition keep_value :: "int \<Rightarrow> 'k \<Rightarrow> uint32 \<Rightarrow> bool" where
  "keep_value h k v = (uint v \<le> h)"

definition clear_after_height ::
  "int \<Rightarrow> ('task, 'ses) PeerRequestCache \<Rightarrow> ('task, 'ses) PeerRequestCache" where
  "clear_after_height h c =
     \<lparr>blocks = rebuild (keep_key h) (blocks c),
      block_requests = rebuild (keep_range h) (block_requests c),
      ses_requests = rebuild (keep_key h) (ses_requests c),
      states_validated = rebuild (keep_state h) (states_validated c),
      timestamps = rebuild (keep_key h) (timestamps c),
      blocks_validated = rebuild (keep_value h) (blocks_validated c),
      block_signatures_validated = rebuild (keep_value h) (block_signatures_validated c)\<rparr>"

definition can_use_peer_request_cache ::
  "(CoinState \<Rightarrow> bytes32) \<Rightarrow> CoinState \<Rightarrow> ('task, 'ses) PeerRequestCache \<Rightarrow> uint32 option
     \<Rightarrow> bool \<times> ('task, 'ses) PeerRequestCache" where
  "can_use_peer_request_cache get_hash coin_state peer_request_cache fork_height =
     (let (present, c) = in_states_validated (get_hash coin_state) peer_request_cache
      in if \<not> present then (False, c)
         else (case fork_height of
                 None \<Rightarrow> (True, c)
               | Some f \<Rightarrow>
                   if created_height coin_state = None \<and> spent_height coin_state = None
                   then (False, c)
                   else if created_height coin_state \<noteq> None \<and> f < the (created_height coin_state)
                   then (False, c)
                   else if spent_height coin_state \<noteq> None \<and> f < the (spent_height coin_state)
                   then (False, c)
                   else (True, c)))"

subsection \<open>States of the cache and runs of operations\<close>

text \<open>Every domain cache satisfies the representation invariant.\<close>

definition PeerRequestCache_inv :: "('task, 'ses) PeerRequestCache \<Rightarrow> bool" where
  "PeerRequestCache_inv c =
     (LRUCache_inv (blocks c) \<and> LRUCache_inv (block_requests c) \<and> LRUCache_inv (ses_requests c)
      \<and> LRUCache_inv (states_validated c) \<and> LRUCache_inv (timestamps c)
      \<and> LRUCache_inv (blocks_validated c) \<and> LRUCache_inv (block_signatures_validated c))"

text \<open>The capacities of the seven caches, in the order of the constructor.\<close>

definition capacities :: "('task, 'ses) PeerRequestCache \<Rightarrow> nat list" where
  "capacities c =
     [capacity (blocks c), capacity (block_requests c), capacity (ses_requests c),
      capacity (states_validated c), capacity (timestamps c), capacity (blocks_validated c),
      capacity (block_signatures_validated c)]"

text \<open>
  Every height that an entry of some cache relates to: the key heights of Blocks,
  SesRequests and Timestamps, both endpoints of the BlockRequests keys, and the stored
  heights of StatesValidated (where there is one), BlocksValidated and
  BlockSignaturesValidated.
\<close>

definition cached_heights :: "('task, 'ses) PeerRequestCache \<Rightarrow> int list" where
  "cached_heights c =
     map (\<lambda>p. uint (fst p)) (cache (blocks c))
     @ concat (map (\<lambda>p. [uint (fst (fst p)), uint (snd (fst p))]) (cache (block_requests c)))
     @ map (\<lambda>p. uint (fst p)) (cache (ses_requests c))
     @ concat (map (\<lambda>p. case snd p of None \<Rightarrow> [] | Some x \<Rightarrow> [uint x]) (cache (states_validated c)))
     @ map (\<lambda>p. uint (fst p)) (cache (timestamps c))
     @ map (\<lambda>p. uint (snd p)) (cache (blocks_validated c))
     @ map (\<lambda>p. uint (snd p)) (cache (block_signatures_validated c))"

text \<open>
  The calls a client can make, and the state after a sequence of them. A failed
  assertion in \<open>add_to_blocks\<close> leaves the object as the call left it.
\<close>

datatype ('task, 'ses) operation =
    Get_block uint32
  | Add_to_blocks HeaderBlock
  | Get_block_request uint32 uint32
  | Add_to_block_requests uint32 uint32 'task
  | Get_ses_request uint32
  | Add_to_ses_requests uint32 'ses
  | In_states_validated bytes32
  | Add_to_states_validated CoinState
  | Get_height_timestamp uint32
  | Add_to_blocks_validated bytes32 uint32
  | In_blocks_validated bytes32
  | Add_to_block_signatures_validated HeaderBlock
  | In_block_signatures_validated HeaderBlock
  | Clear_after_height int
  | Can_use_peer_request_cache CoinState "uint32 option"

fun perform ::
  "(CoinState \<Rightarrow> bytes32) \<Rightarrow> (bytes \<Rightarrow> bytes32) \<Rightarrow> ('task, 'ses) PeerRequestCache
     \<Rightarrow> ('task, 'ses) operation \<Rightarrow> ('task, 'ses) PeerRequestCache" where
  "perform get_hash std_hash c (Get_block h) = snd (get_block h c)"
| "perform get_hash std_hash c (Add_to_blocks b) = snd (add_to_blocks b c)"
| "perform get_hash std_hash c (Get_block_request s e) = snd (get_block_request s e c)"
| "perform get_hash std_hash c (Add_to_block_requests s e r) = add_to_block_requests s e r c"
| "perform get_hash std_hash c (Get_ses_request h) = snd (get_ses_request h c)"
| "perform get_hash std_hash c (Add_to_ses_requests h r) = add_to_ses_requests h r c"
| "perform get_hash std_hash c (In_states_validated k) = snd (in_states_validated k c)"
| "perform get_hash std_hash c (Add_to_states_validated cs) = add_to_states_validated get_hash cs c"
| "perform get_hash std_hash c (Get_height_timestamp h) = snd (get_height_timestamp h c)"
| "perform get_hash std_hash c (Add_to_blocks_validated k h) = add_to_blocks_validated k h c"
| "perform get_hash std_hash c (In_blocks_validated k) = snd (in_blocks_validated k c)"
| "perform get_hash std_hash c (Add_to_block_signatures_validated b) =
     add_to_block_signatures_validated std_hash b c"
| "perform get_hash std_hash c (In_block_signatures_validated b) =
     snd (in_block_signatures_validated std_hash b c)"
| "perform get_hash std_hash c (Clear_after_height h) = clear_after_height h c"
| "perform get_hash std_hash c (Can_use_peer_request_cache cs f) =
     snd (can_use_peer_request_cache get_hash cs c f)"

definition run ::
  "(CoinState \<Rightarrow> bytes32) \<Rightarrow> (bytes \<Rightarrow> bytes32) \<Rightarrow> ('task, 'ses) operation list
     \<Rightarrow> ('task, 'ses) PeerRequestCache \<Rightarrow> ('task, 'ses) PeerRequestCache" where
  "run get_hash std_hash ops c = foldl (perform get_hash std_hash) c ops"

subsection \<open>Concrete inputs\<close>

text \<open>
  Sample values for the evaluations below. The sample hash of a coin state is its
  \<open>coin\<close> field and the sample \<open>std_hash\<close> is the identity.
\<close>

definition cs_no_height :: CoinState where
  "cs_no_height = \<lparr>coin = [1], spent_height = None, created_height = None\<rparr>"

definition cs_created :: CoinState where
  "cs_created = \<lparr>coin = [2], spent_height = None, created_height = Some 5\<rparr>"

definition cs_spent :: CoinState where
  "cs_spent = \<lparr>coin = [3], spent_height = Some 8, created_height = Some 2\<rparr>"

definition sample_block :: "uint32 \<Rightarrow> bool \<Rightarrow> uint64 option \<Rightarrow> HeaderBlock" where
  "sample_block h tx ts =
     \<lparr>height = h, is_transaction_block = tx,
      foliage_transaction_block = map_option (\<lambda>t. \<lparr>timestamp = t\<rparr>) ts,
      reward_chain_block = \<lparr>proof_of_space = \<lparr>plot_public_key = [7]\<rparr>\<rparr>,
      foliage = \<lparr>foliage_block_data = [8], foliage_block_data_signature = [9]\<rparr>\<rparr>"

definition empty_cache :: "(unit, unit) PeerRequestCache" where
  "empty_cache = PeerRequestCache_init"

definition sample_state :: "(unit, unit) PeerRequestCache" where
  "sample_state =
     run coin id
       [Add_to_blocks (sample_block 3 True (Some 100)),
        Add_to_blocks (sample_block 12 False None),
        Add_to_block_requests 3 8 (),
        Add_to_block_requests 5 15 (),
        Add_to_ses_requests 4 (),
        Add_to_states_validated cs_created,
        Add_to_states_validated cs_no_height,
        Add_to_blocks_validated [4] 3,
        Add_to_block_signatures_validated (sample_block 12 False None)]
       empty_cache"

section \<open>Properties of the bounded cache\<close>

lemma move_to_end_fresh: "k \<notin> fst ` set xs \<Longrightarrow> move_to_end k v xs = xs @ [(k, v)]"
  unfolding move_to_end_def by (induction xs) auto

lemma map_of_move_to_end: "map_of (move_to_end k v xs) = (map_of xs)(k \<mapsto> v)"
proof (induction xs)
  case Nil
  show ?case by (simp add: move_to_end_def)
next
  case (Cons p xs)
  then show ?case
    by (cases p) (auto simp: move_to_end_def fun_eq_iff)
qed

lemma distinct_move_to_end:
  "distinct (map fst xs) \<Longrightarrow> distinct (map fst (move_to_end k v xs))"
  unfolding move_to_end_def by (auto simp: distinct_map_filter)

lemma length_move_to_end: "length (move_to_end k v xs) \<le> Suc (length xs)"
  unfolding move_to_end_def by (simp add: le_SucI)

lemma LRUCache_get_fst: "fst (LRUCache_get k lc) = contents lc k"
  unfolding LRUCache_get_def contents_def by (simp split: option.splits)

lemma LRUCache_get_contents: "contents (snd (LRUCache_get k lc)) = contents lc"
  unfolding LRUCache_get_def contents_def
  by (auto simp: map_of_move_to_end fun_eq_iff split: option.splits)

lemma LRUCache_get_miss: "contents lc k = None \<Longrightarrow> LRUCache_get k lc = (None, lc)"
  by (simp add: LRUCache_get_def contents_def)

lemma LRUCache_get_capacity: "capacity (snd (LRUCache_get k lc)) = capacity lc"
  unfolding LRUCache_get_def by (simp split: option.splits)

lemma LRUCache_put_capacity: "capacity (LRUCache_put k v lc) = capacity lc"
  unfolding LRUCache_put_def by (simp add: Let_def)

lemma LRUCache_get_inv: "LRUCache_inv lc \<Longrightarrow> LRUCache_inv (snd (LRUCache_get k lc))"
proof (cases "map_of (cache lc) k")
  case None
  assume "LRUCache_inv lc"
  with None show ?thesis by (simp add: LRUCache_get_def)
next
  case (Some v)
  assume inv: "LRUCache_inv lc"
  from Some have "(k, v) \<in> set (cache lc)" by (rule map_of_SomeD)
  then have "length (filter (\<lambda>p. fst p \<noteq> k) (cache lc)) < length (cache lc)"
    by (intro length_filter_less[of "(k, v)"]) auto
  with inv Some show ?thesis
    by (auto simp: LRUCache_get_def LRUCache_inv_def move_to_end_def distinct_map_filter)
qed

lemma LRUCache_put_inv: "LRUCache_inv lc \<Longrightarrow> LRUCache_inv (LRUCache_put k v lc)"
proof -
  assume inv: "LRUCache_inv lc"
  let ?xs = "move_to_end k v (cache lc)"
  have d: "distinct (map fst ?xs)" using inv by (simp add: LRUCache_inv_def distinct_move_to_end)
  have l: "length ?xs \<le> Suc (capacity lc)"
    using inv length_move_to_end[of k v "cache lc"] by (simp add: LRUCache_inv_def)
  show ?thesis
  proof (cases "capacity lc < length ?xs")
    case True
    then have "LRUCache_put k v lc = lc\<lparr>cache := tl ?xs\<rparr>" by (simp add: LRUCache_put_def Let_def)
    moreover have "distinct (map fst (tl ?xs))" using d by (simp add: distinct_tl map_tl)
    moreover have "length (tl ?xs) \<le> capacity lc" using l by simp
    ultimately show ?thesis by (simp add: LRUCache_inv_def)
  next
    case False
    then have "LRUCache_put k v lc = lc\<lparr>cache := ?xs\<rparr>" by (simp add: LRUCache_put_def Let_def)
    with d False show ?thesis by (simp add: LRUCache_inv_def)
  qed
qed

lemma LRUCache_put_hit:
  assumes cap: "0 < capacity lc"
  shows "contents (LRUCache_put k v lc) k = Some v"
proof -
  let ?F = "filter (\<lambda>p. fst p \<noteq> k) (cache lc)"
  have fresh: "k \<notin> fst ` set ys" if "set ys \<subseteq> set ?F" for ys
    using that by auto
  have hit: "map_of (ys @ [(k, v)]) k = Some v" if "set ys \<subseteq> set ?F" for ys
  proof -
    from fresh[OF that] have "map_of ys k = None" by (simp add: map_of_eq_None_iff)
    then show ?thesis by (simp add: map_add_def)
  qed
  show ?thesis
  proof (cases "capacity lc < length (move_to_end k v (cache lc))")
    case True
    with cap have "?F \<noteq> []" by (auto simp: move_to_end_def)
    then have tl: "tl (move_to_end k v (cache lc)) = tl ?F @ [(k, v)]"
      by (simp add: move_to_end_def)
    have "set (tl ?F) \<subseteq> set ?F" by (cases ?F) auto
    from hit[OF this] True tl show ?thesis
      by (simp add: contents_def LRUCache_put_def Let_def)
  next
    case False
    have "set ?F \<subseteq> set ?F" by simp
    from hit[OF this] False show ?thesis
      by (simp add: contents_def LRUCache_put_def Let_def move_to_end_def)
  qed
qed

lemma LRUCache_put_entries:
  "set (cache (LRUCache_put k v lc)) \<subseteq> insert (k, v) (set (cache lc))"
proof -
  have "set (tl xs) \<subseteq> set xs" for xs :: "('a \<times> 'b) list" by (cases xs) auto
  then have "set (tl (move_to_end k v (cache lc))) \<subseteq> set (move_to_end k v (cache lc))" .
  moreover have "set (move_to_end k v (cache lc)) \<subseteq> insert (k, v) (set (cache lc))"
    by (auto simp: move_to_end_def)
  ultimately show ?thesis by (auto simp: LRUCache_put_def Let_def)
qed

lemma LRUCache_put_contents_cases:
  assumes inv: "LRUCache_inv lc" and hit: "contents (LRUCache_put k v lc) k' = Some t"
  shows "(k' = k \<and> t = v) \<or> contents lc k' = Some t"
proof -
  from hit have "(k', t) \<in> set (cache (LRUCache_put k v lc))"
    by (simp add: contents_def map_of_SomeD)
  with LRUCache_put_entries[of k v lc] have "(k', t) = (k, v) \<or> (k', t) \<in> set (cache lc)"
    by auto
  then show ?thesis
  proof
    assume "(k', t) = (k, v)"
    then show ?thesis by simp
  next
    assume "(k', t) \<in> set (cache lc)"
    with inv have "contents lc k' = Some t" by (simp add: contents_def LRUCache_inv_def)
    then show ?thesis by simp
  qed
qed

subsection \<open>Rebuilding a cache\<close>

text \<open>
  When the old cache satisfies the invariant, no insertion of the rebuild evicts
  anything: the new cache holds the entries that pass the test, in their old order.
\<close>

lemma rebuild_foldl:
  "distinct (map fst (ys @ xs)) \<Longrightarrow> length (ys @ xs) \<le> n \<Longrightarrow>
   foldl (\<lambda>new (k, v). if keep k v then LRUCache_put k v new else new)
         \<lparr>cache = ys, capacity = n\<rparr> xs
   = \<lparr>cache = ys @ filter (\<lambda>(k, v). keep k v) xs, capacity = n\<rparr>"
proof (induction xs arbitrary: ys)
  case Nil
  show ?case by simp
next
  case (Cons p xs)
  obtain k v where p: "p = (k, v)" by (cases p)
  show ?case
  proof (cases "keep k v")
    case True
    from Cons.prems p have fresh: "k \<notin> fst ` set ys" by auto
    have put: "LRUCache_put k v \<lparr>cache = ys, capacity = n\<rparr> = \<lparr>cache = ys @ [(k, v)], capacity = n\<rparr>"
      using Cons.prems(2) by (simp add: LRUCache_put_def Let_def move_to_end_fresh[OF fresh])
    have "distinct (map fst ((ys @ [(k, v)]) @ xs))" "length ((ys @ [(k, v)]) @ xs) \<le> n"
      using Cons.prems p by auto
    from Cons.IH[OF this] True p put show ?thesis by simp
  next
    case False
    have "distinct (map fst (ys @ xs))" "length (ys @ xs) \<le> n"
      using Cons.prems by auto
    from Cons.IH[OF this] False p show ?thesis by simp
  qed
qed

lemma rebuild_filter:
  "LRUCache_inv lc \<Longrightarrow>
   rebuild keep lc = \<lparr>cache = filter (\<lambda>(k, v). keep k v) (cache lc), capacity = capacity lc\<rparr>"
  unfolding rebuild_def LRUCache_init_def LRUCache_inv_def
  using rebuild_foldl[of "[]" "cache lc" "capacity lc" keep] by simp

lemma rebuild_capacity: "capacity (rebuild keep lc) = capacity lc"
proof -
  have "capacity (foldl (\<lambda>new (k, v). if keep k v then LRUCache_put k v new else new) a xs) = capacity a"
    for a :: "('a, 'b) LRUCache" and xs
    by (induction xs arbitrary: a) (auto simp: LRUCache_put_capacity)
  then show ?thesis by (simp add: rebuild_def LRUCache_init_def)
qed

lemma rebuild_foldl_inv:
  "LRUCache_inv a \<Longrightarrow>
   LRUCache_inv (foldl (\<lambda>new (k, v). if keep k v then LRUCache_put k v new else new) a xs)"
  by (induction xs arbitrary: a) (auto simp: LRUCache_put_inv)

lemma rebuild_foldl_keep:
  "\<forall>p \<in> set (cache a). keep (fst p) (snd p) \<Longrightarrow>
   \<forall>p \<in> set (cache (foldl (\<lambda>new (k, v). if keep k v then LRUCache_put k v new else new) a xs)).
      keep (fst p) (snd p)"
proof (induction xs arbitrary: a)
  case Nil
  then show ?case by simp
next
  case (Cons x xs)
  obtain k v where x: "x = (k, v)" by (cases x)
  show ?case
  proof (cases "keep k v")
    case True
    have "\<forall>p \<in> set (cache (LRUCache_put k v a)). keep (fst p) (snd p)"
      using Cons.prems True LRUCache_put_entries[of k v a] by auto
    from Cons.IH[OF this] True x show ?thesis by simp
  next
    case False
    from Cons.IH[OF Cons.prems] False x show ?thesis by simp
  qed
qed

lemma rebuild_inv_always: "LRUCache_inv (rebuild keep lc)"
  unfolding rebuild_def
  by (rule rebuild_foldl_inv) (simp add: LRUCache_inv_def LRUCache_init_def)

lemma rebuild_keeps: "\<forall>p \<in> set (cache (rebuild keep lc)). keep (fst p) (snd p)"
  unfolding rebuild_def
  by (rule rebuild_foldl_keep) (simp add: LRUCache_init_def)

lemma rebuild_twice: "rebuild keep (rebuild keep lc) = rebuild keep lc"
proof -
  have "filter (\<lambda>(k, v). keep k v) (cache (rebuild keep lc)) = cache (rebuild keep lc)"
    using rebuild_keeps[of keep lc] by (auto simp: filter_id_conv)
  then show ?thesis
    by (simp add: rebuild_filter[OF rebuild_inv_always] rebuild_capacity)
qed

lemma rebuild_none:
  assumes "LRUCache_inv lc" and "\<forall>p \<in> set (cache lc). \<not> keep (fst p) (snd p)"
  shows "cache (rebuild keep lc) = []"
  using assms by (auto simp: rebuild_filter filter_empty_conv)

lemma rebuild_all:
  assumes "LRUCache_inv lc" and "\<forall>p \<in> set (cache lc). keep (fst p) (snd p)"
  shows "rebuild keep lc = lc"
proof -
  from assms(2) have "filter (\<lambda>(k, v). keep k v) (cache lc) = cache lc"
    by (auto simp: filter_id_conv)
  with assms(1) show ?thesis by (simp add: rebuild_filter)
qed

lemma rebuild_state_all:
  assumes "LRUCache_inv lc"
    and "\<forall>p \<in> set (cache lc). case snd p of None \<Rightarrow> True | Some x \<Rightarrow> uint x \<le> h"
  shows "cache (rebuild (keep_state h) lc) = filter (\<lambda>(k, v). v \<noteq> None) (cache lc)"
proof -
  from assms(2)
  have "filter (\<lambda>(k, v). keep_state h k v) (cache lc) = filter (\<lambda>(k, v). v \<noteq> None) (cache lc)"
    by (intro filter_cong) (auto simp: keep_state_def split: option.splits)
  with assms(1) show ?thesis by (simp add: rebuild_filter)
qed

section \<open>The invariant and the capacities along a run\<close>

text \<open>
  A new \<open>PeerRequestCache\<close> satisfies the invariant and every operation keeps it, so it
  holds in every state a client can reach.
\<close>

lemma PeerRequestCache_init_inv: "PeerRequestCache_inv PeerRequestCache_init"
  by (simp add: PeerRequestCache_inv_def PeerRequestCache_init_def LRUCache_inv_def LRUCache_init_def)

lemma get_block_inv: "PeerRequestCache_inv c \<Longrightarrow> PeerRequestCache_inv (snd (get_block h c))"
  using LRUCache_get_inv[of "blocks c" h]
  by (simp add: get_block_def PeerRequestCache_inv_def split_beta)

lemma add_to_blocks_inv: "PeerRequestCache_inv c \<Longrightarrow> PeerRequestCache_inv (snd (add_to_blocks b c))"
  using LRUCache_put_inv[of "blocks c" "height b" b]
        LRUCache_get_inv[of "timestamps c" "height b"]
        LRUCache_put_inv[of "snd (LRUCache_get (height b) (timestamps c))" "height b"]
  by (simp add: add_to_blocks_def PeerRequestCache_inv_def split_beta Let_def split: option.splits)

lemma get_block_request_inv:
  "PeerRequestCache_inv c \<Longrightarrow> PeerRequestCache_inv (snd (get_block_request s e c))"
  using LRUCache_get_inv[of "block_requests c" "(s, e)"]
  by (simp add: get_block_request_def PeerRequestCache_inv_def split_beta)

lemma add_to_block_requests_inv:
  "PeerRequestCache_inv c \<Longrightarrow> PeerRequestCache_inv (add_to_block_requests s e r c)"
  using LRUCache_put_inv[of "block_requests c" "(s, e)" r]
  by (simp add: add_to_block_requests_def PeerRequestCache_inv_def)

lemma get_ses_request_inv:
  "PeerRequestCache_inv c \<Longrightarrow> PeerRequestCache_inv (snd (get_ses_request h c))"
  using LRUCache_get_inv[of "ses_requests c" h]
  by (simp add: get_ses_request_def PeerRequestCache_inv_def split_beta)

lemma add_to_ses_requests_inv:
  "PeerRequestCache_inv c \<Longrightarrow> PeerRequestCache_inv (add_to_ses_requests h r c)"
  using LRUCache_put_inv[of "ses_requests c" h r]
  by (simp add: add_to_ses_requests_def PeerRequestCache_inv_def)

lemma in_states_validated_inv:
  "PeerRequestCache_inv c \<Longrightarrow> PeerRequestCache_inv (snd (in_states_validated k c))"
  using LRUCache_get_inv[of "states_validated c" k]
  by (simp add: in_states_validated_def PeerRequestCache_inv_def split_beta)

lemma add_to_states_validated_inv:
  "PeerRequestCache_inv c \<Longrightarrow> PeerRequestCache_inv (add_to_states_validated get_hash cs c)"
  using LRUCache_put_inv[of "states_validated c" "get_hash cs" "cs_height cs"]
  by (simp add: add_to_states_validated_def PeerRequestCache_inv_def)

lemma get_height_timestamp_inv:
  "PeerRequestCache_inv c \<Longrightarrow> PeerRequestCache_inv (snd (get_height_timestamp h c))"
  using LRUCache_get_inv[of "timestamps c" h]
  by (simp add: get_height_timestamp_def PeerRequestCache_inv_def split_beta)

lemma add_to_blocks_validated_inv:
  "PeerRequestCache_inv c \<Longrightarrow> PeerRequestCache_inv (add_to_blocks_validated k h c)"
  using LRUCache_put_inv[of "blocks_validated c" k h]
  by (simp add: add_to_blocks_validated_def PeerRequestCache_inv_def)

lemma in_blocks_validated_inv:
  "PeerRequestCache_inv c \<Longrightarrow> PeerRequestCache_inv (snd (in_blocks_validated k c))"
  using LRUCache_get_inv[of "blocks_validated c" k]
  by (simp add: in_blocks_validated_def PeerRequestCache_inv_def split_beta)

lemma add_to_block_signatures_validated_inv:
  "PeerRequestCache_inv c \<Longrightarrow> PeerRequestCache_inv (add_to_block_signatures_validated std_hash b c)"
  using LRUCache_put_inv[of "block_signatures_validated c" "calculate_sig_hash_from_block std_hash b" "height b"]
  by (simp add: add_to_block_signatures_validated_def PeerRequestCache_inv_def Let_def)

lemma in_block_signatures_validated_inv:
  "PeerRequestCache_inv c \<Longrightarrow> PeerRequestCache_inv (snd (in_block_signatures_validated std_hash b c))"
  using LRUCache_get_inv[of "block_signatures_validated c" "calculate_sig_hash_from_block std_hash b"]
  by (simp add: in_block_signatures_validated_def PeerRequestCache_inv_def split_beta Let_def)

lemma clear_after_height_inv:
  "PeerRequestCache_inv c \<Longrightarrow> PeerRequestCache_inv (clear_after_height h c)"
  by (simp add: clear_after_height_def PeerRequestCache_inv_def rebuild_inv_always)

lemma can_use_snd:
  "snd (can_use_peer_request_cache get_hash cs c f) = snd (in_states_validated (get_hash cs) c)"
  by (simp add: can_use_peer_request_cache_def split_beta split: option.splits)

lemma can_use_peer_request_cache_inv:
  "PeerRequestCache_inv c \<Longrightarrow> PeerRequestCache_inv (snd (can_use_peer_request_cache get_hash cs c f))"
  by (simp add: can_use_snd in_states_validated_inv)

lemma perform_inv:
  "PeerRequestCache_inv c \<Longrightarrow> PeerRequestCache_inv (perform get_hash std_hash c op)"
  by (cases op)
     (simp_all add: get_block_inv add_to_blocks_inv get_block_request_inv add_to_block_requests_inv
        get_ses_request_inv add_to_ses_requests_inv in_states_validated_inv
        add_to_states_validated_inv get_height_timestamp_inv add_to_blocks_validated_inv
        in_blocks_validated_inv add_to_block_signatures_validated_inv
        in_block_signatures_validated_inv clear_after_height_inv can_use_peer_request_cache_inv)

lemma run_inv:
  "PeerRequestCache_inv c \<Longrightarrow> PeerRequestCache_inv (run get_hash std_hash ops c)"
  unfolding run_def by (induction ops arbitrary: c) (simp_all add: perform_inv)

lemma perform_capacities: "capacities (perform get_hash std_hash c op) = capacities c"
  by (cases op)
     (simp_all add: capacities_def get_block_def add_to_blocks_def get_block_request_def
        add_to_block_requests_def get_ses_request_def add_to_ses_requests_def
        in_states_validated_def add_to_states_validated_def get_height_timestamp_def
        add_to_blocks_validated_def in_blocks_validated_def add_to_block_signatures_validated_def
        in_block_signatures_validated_def clear_after_height_def can_use_snd
        split_beta Let_def LRUCache_get_capacity LRUCache_put_capacity rebuild_capacity
        split: option.splits)

lemma run_capacities: "capacities (run get_hash std_hash ops c) = capacities c"
  unfolding run_def by (induction ops arbitrary: c) (simp_all add: perform_capacities)

subsection \<open>The sample states\<close>

lemma empty_cache_timestamps:
  "LRUCache_inv (timestamps empty_cache) \<and> 0 < capacity (timestamps empty_cache)
   \<and> contents (timestamps empty_cache) h = None"
  by (simp add: empty_cache_def PeerRequestCache_init_def LRUCache_init_def LRUCache_inv_def
      contents_def)

lemma empty_cache_states_validated: "0 < capacity (states_validated empty_cache)"
  by (simp add: empty_cache_def PeerRequestCache_init_def LRUCache_init_def)

lemma sample_state_eq:
  "sample_state =
    \<lparr>blocks = \<lparr>cache = [(3, sample_block 3 True (Some 100)), (12, sample_block 12 False None)], capacity = 100\<rparr>,
     block_requests = \<lparr>cache = [((3, 8), ()), ((5, 15), ())], capacity = 100\<rparr>,
     ses_requests = \<lparr>cache = [(4, ())], capacity = 100\<rparr>,
     states_validated = \<lparr>cache = [([2], Some 5), ([1], None)], capacity = 1000\<rparr>,
     timestamps = \<lparr>cache = [(3, 100)], capacity = 1000\<rparr>,
     blocks_validated = \<lparr>cache = [([4], 3)], capacity = 1000\<rparr>,
     block_signatures_validated = \<lparr>cache = [([7, 8, 9], 12)], capacity = 1000\<rparr>\<rparr>"
  by (simp add: sample_state_def run_def empty_cache_def PeerRequestCache_init_def LRUCache_init_def
      add_to_blocks_def add_to_block_requests_def add_to_ses_requests_def add_to_states_validated_def
      add_to_blocks_validated_def add_to_block_signatures_validated_def
      calculate_sig_hash_from_block_def LRUCache_put_def LRUCache_get_def move_to_end_def
      cs_created_def cs_no_height_def cs_height_def sample_block_def Let_def)

lemma sample_state_inv: "PeerRequestCache_inv sample_state"
  unfolding sample_state_def empty_cache_def
  by (rule run_inv) (rule PeerRequestCache_init_inv)

section \<open>The usability predicate\<close>

text \<open>
  The result of \<open>can_use_peer_request_cache\<close>, as the sequence of its tests. The first
  test is the result of \<open>in_states_validated\<close>, which holds exactly when the cache
  stores a height under the hash: it fails both when the hash is not a key and when
  the hash is stored with \<open>None\<close>.
\<close>

lemma in_states_validated_iff:
  "fst (in_states_validated k c) \<longleftrightarrow> (\<exists>h. contents (states_validated c) k = Some (Some h))"
  by (simp add: in_states_validated_def split_beta LRUCache_get_fst split: option.splits)

lemma in_states_validated_after_add:
  assumes "0 < capacity (states_validated c)"
  shows "fst (in_states_validated (get_hash cs) (add_to_states_validated get_hash cs c))
         \<longleftrightarrow> (spent_height cs \<noteq> None \<or> created_height cs \<noteq> None)"
  using LRUCache_put_hit[OF assms, of "get_hash cs" "cs_height cs"]
  by (auto simp: in_states_validated_iff add_to_states_validated_def cs_height_def)

lemma can_use_peer_request_cache_decision:
  "fst (can_use_peer_request_cache get_hash cs c f) =
     (if \<not> fst (in_states_validated (get_hash cs) c) then False
      else if f = None then True
      else if created_height cs = None \<and> spent_height cs = None then False
      else if created_height cs \<noteq> None \<and> the f < the (created_height cs) then False
      else if spent_height cs \<noteq> None \<and> the f < the (spent_height cs) then False
      else True)"
  by (auto simp: can_use_peer_request_cache_def split_beta split: option.splits)

text \<open>
  C1. For every coin state, cache and optional fork height,
  \<open>can_use_peer_request_cache\<close> is to return false if the coin state's hash is not
  present in StatesValidated, else true if the fork height is absent, else false if
  both heights are absent, else false if the created height exceeds the fork height,
  else false if the spent height exceeds the fork height, else true.

  The code departs from this at a coin state without heights that has been added to a
  new cache, with no fork height: the hash is present in StatesValidated (stored with
  \<open>None\<close>), so the sequence gives true at its second step, and the function returns
  false, because its first test goes through \<open>in_states_validated\<close>.
\<close>

theorem can_use_peer_request_cache_unknown_height:
  "contents (states_validated (add_to_states_validated coin cs_no_height empty_cache))
         (coin cs_no_height) = Some None
   \<and> fst (can_use_peer_request_cache coin cs_no_height
            (add_to_states_validated coin cs_no_height empty_cache) None) = False"
  using in_states_validated_after_add[OF empty_cache_states_validated, of coin cs_no_height]
    LRUCache_put_hit[OF empty_cache_states_validated, of "coin cs_no_height" "cs_height cs_no_height"]
  by (simp add: can_use_peer_request_cache_decision add_to_states_validated_def cs_height_def
      cs_no_height_def)

lemma in_states_validated_frame:
  "blocks (snd (in_states_validated k c)) = blocks c
   \<and> block_requests (snd (in_states_validated k c)) = block_requests c
   \<and> ses_requests (snd (in_states_validated k c)) = ses_requests c
   \<and> states_validated (snd (in_states_validated k c)) = snd (LRUCache_get k (states_validated c))
   \<and> timestamps (snd (in_states_validated k c)) = timestamps c
   \<and> blocks_validated (snd (in_states_validated k c)) = blocks_validated c
   \<and> block_signatures_validated (snd (in_states_validated k c)) = block_signatures_validated c"
  by (simp add: in_states_validated_def split_beta)

text \<open>
  C9. Evaluating \<open>can_use_peer_request_cache\<close> leaves the key-to-value contents of all
  seven domain caches as they were. (The lookup refreshes the recency of the entry in
  StatesValidated; the contents do not depend on the recency order.)
\<close>

theorem can_use_peer_request_cache_frame:
  "contents (blocks (snd (can_use_peer_request_cache get_hash cs c f))) = contents (blocks c)
   \<and> contents (block_requests (snd (can_use_peer_request_cache get_hash cs c f)))
       = contents (block_requests c)
   \<and> contents (ses_requests (snd (can_use_peer_request_cache get_hash cs c f)))
       = contents (ses_requests c)
   \<and> contents (states_validated (snd (can_use_peer_request_cache get_hash cs c f)))
       = contents (states_validated c)
   \<and> contents (timestamps (snd (can_use_peer_request_cache get_hash cs c f)))
       = contents (timestamps c)
   \<and> contents (blocks_validated (snd (can_use_peer_request_cache get_hash cs c f)))
       = contents (blocks_validated c)
   \<and> contents (block_signatures_validated (snd (can_use_peer_request_cache get_hash cs c f)))
       = contents (block_signatures_validated c)"
  by (simp add: can_use_snd in_states_validated_frame LRUCache_get_contents)

section \<open>Validated coin states\<close>

text \<open>
  C2. For a coin state with neither a created height nor a spent height,
  \<open>in_states_validated\<close> of its hash is to return true after
  \<open>add_to_states_validated\<close>, the stored \<open>None\<close> being a marker distinct from the
  absence of the key.

  The code stores \<open>None\<close> under the hash, and \<open>in_states_validated\<close> then returns
  false: it tests the looked-up value with \<open>is not None\<close>, which a stored \<open>None\<close>
  fails like a missing key.
\<close>

theorem in_states_validated_unknown_height:
  "spent_height cs_no_height = None \<and> created_height cs_no_height = None
   \<and> contents (states_validated (add_to_states_validated coin cs_no_height empty_cache))
         (coin cs_no_height) = Some None
   \<and> fst (in_states_validated (coin cs_no_height)
            (add_to_states_validated coin cs_no_height empty_cache)) = False"
  using in_states_validated_after_add[OF empty_cache_states_validated, of coin cs_no_height]
    LRUCache_put_hit[OF empty_cache_states_validated, of "coin cs_no_height" "cs_height cs_no_height"]
  by (simp add: add_to_states_validated_def cs_height_def cs_no_height_def)

text \<open>
  C4. \<open>add_to_states_validated\<close> stores, under the key \<open>coin_state.get_hash()\<close>, the
  spent height if there is one, else the created height if there is one, else
  \<open>None\<close>. (The cache has room for at least one entry.)
\<close>

theorem add_to_states_validated_resolved_height:
  assumes "0 < capacity (states_validated c)"
  shows "contents (states_validated (add_to_states_validated get_hash cs c)) (get_hash cs)
         = Some (case spent_height cs of
                   Some s \<Rightarrow> Some s
                 | None \<Rightarrow> (case created_height cs of Some cr \<Rightarrow> Some cr | None \<Rightarrow> None))"
proof -
  have "cs_height cs = (case spent_height cs of
                   Some s \<Rightarrow> Some s
                 | None \<Rightarrow> (case created_height cs of Some cr \<Rightarrow> Some cr | None \<Rightarrow> None))"
    by (simp add: cs_height_def split: option.splits)
  with LRUCache_put_hit[OF assms, of "get_hash cs" "cs_height cs"] show ?thesis
    by (simp add: add_to_states_validated_def)
qed

theorem add_to_states_validated_resolved_height_witness:
  "0 < capacity (states_validated empty_cache)
   \<and> contents (states_validated (add_to_states_validated coin cs_spent empty_cache)) (coin cs_spent)
       = Some (Some 8)
   \<and> contents (states_validated (add_to_states_validated coin cs_created empty_cache)) (coin cs_created)
       = Some (Some 5)
   \<and> contents (states_validated (add_to_states_validated coin cs_no_height empty_cache)) (coin cs_no_height)
       = Some None"
proof -
  have h: "0 < capacity (states_validated empty_cache)"
    by (simp add: empty_cache_def PeerRequestCache_init_def LRUCache_init_def)
  from h add_to_states_validated_resolved_height[OF h, of coin cs_spent]
    add_to_states_validated_resolved_height[OF h, of coin cs_created]
    add_to_states_validated_resolved_height[OF h, of coin cs_no_height]
  show ?thesis by (simp add: cs_spent_def cs_created_def cs_no_height_def)
qed

section \<open>Truncation\<close>

lemma cached_heights_blocks:
  "p \<in> set (cache (blocks c)) \<Longrightarrow> uint (fst p) \<in> set (cached_heights c)"
  by (simp add: cached_heights_def)

lemma cached_heights_block_requests:
  "p \<in> set (cache (block_requests c)) \<Longrightarrow>
   uint (fst (fst p)) \<in> set (cached_heights c) \<and> uint (snd (fst p)) \<in> set (cached_heights c)"
  by (auto simp: cached_heights_def)

lemma cached_heights_ses_requests:
  "p \<in> set (cache (ses_requests c)) \<Longrightarrow> uint (fst p) \<in> set (cached_heights c)"
  by (simp add: cached_heights_def)

lemma cached_heights_states_validated:
  "p \<in> set (cache (states_validated c)) \<Longrightarrow> snd p = Some x \<Longrightarrow> uint x \<in> set (cached_heights c)"
  by (force simp: cached_heights_def)

lemma cached_heights_timestamps:
  "p \<in> set (cache (timestamps c)) \<Longrightarrow> uint (fst p) \<in> set (cached_heights c)"
  by (simp add: cached_heights_def)

lemma cached_heights_blocks_validated:
  "p \<in> set (cache (blocks_validated c)) \<Longrightarrow> uint (snd p) \<in> set (cached_heights c)"
  by (simp add: cached_heights_def)

lemma cached_heights_block_signatures_validated:
  "p \<in> set (cache (block_signatures_validated c)) \<Longrightarrow> uint (snd p) \<in> set (cached_heights c)"
  by (simp add: cached_heights_def)

lemma clear_after_height_entries:
  assumes "PeerRequestCache_inv c"
  shows "cache (blocks (clear_after_height h c))
           = filter (\<lambda>(k, v). uint k \<le> h) (cache (blocks c))"
    and "cache (block_requests (clear_after_height h c))
           = filter (\<lambda>((s, e), v). uint s \<le> h \<and> uint e \<le> h) (cache (block_requests c))"
    and "cache (ses_requests (clear_after_height h c))
           = filter (\<lambda>(k, v). uint k \<le> h) (cache (ses_requests c))"
    and "cache (states_validated (clear_after_height h c))
           = filter (\<lambda>(k, v). case v of None \<Rightarrow> False | Some x \<Rightarrow> uint x \<le> h)
               (cache (states_validated c))"
    and "cache (timestamps (clear_after_height h c))
           = filter (\<lambda>(k, v). uint k \<le> h) (cache (timestamps c))"
    and "cache (blocks_validated (clear_after_height h c))
           = filter (\<lambda>(k, v). uint v \<le> h) (cache (blocks_validated c))"
    and "cache (block_signatures_validated (clear_after_height h c))
           = filter (\<lambda>(k, v). uint v \<le> h) (cache (block_signatures_validated c))"
proof -
  have r: "(\<lambda>(k, v). keep_range h k v)
           = (\<lambda>((s, e), v). uint s \<le> h \<and> uint e \<le> h)"
    by (auto simp: keep_range_def fun_eq_iff)
  from assms have "LRUCache_inv (block_requests c)" by (simp add: PeerRequestCache_inv_def)
  then show "cache (block_requests (clear_after_height h c))
           = filter (\<lambda>((s, e), v). uint s \<le> h \<and> uint e \<le> h) (cache (block_requests c))"
    by (simp add: clear_after_height_def rebuild_filter r)
qed (use assms in \<open>simp_all add: clear_after_height_def PeerRequestCache_inv_def rebuild_filter
      keep_key_def keep_state_def keep_value_def\<close>)

lemma clear_after_height_below:
  assumes inv: "PeerRequestCache_inv c" and below: "\<forall>x \<in> set (cached_heights c). h < x"
  shows "cache (blocks (clear_after_height h c)) = []"
    and "cache (block_requests (clear_after_height h c)) = []"
    and "cache (ses_requests (clear_after_height h c)) = []"
    and "cache (states_validated (clear_after_height h c)) = []"
    and "cache (timestamps (clear_after_height h c)) = []"
    and "cache (blocks_validated (clear_after_height h c)) = []"
    and "cache (block_signatures_validated (clear_after_height h c)) = []"
proof -
  show "cache (blocks (clear_after_height h c)) = []"
    using below cached_heights_blocks[of _ c]
    by (fastforce simp: clear_after_height_entries[OF inv] filter_empty_conv)
  show "cache (block_requests (clear_after_height h c)) = []"
    using below cached_heights_block_requests[of _ c]
    by (fastforce simp: clear_after_height_entries[OF inv] filter_empty_conv)
  show "cache (ses_requests (clear_after_height h c)) = []"
    using below cached_heights_ses_requests[of _ c]
    by (fastforce simp: clear_after_height_entries[OF inv] filter_empty_conv)
  show "cache (states_validated (clear_after_height h c)) = []"
    using below cached_heights_states_validated[of _ c]
    by (fastforce simp: clear_after_height_entries[OF inv] filter_empty_conv split: option.splits)
  show "cache (timestamps (clear_after_height h c)) = []"
    using below cached_heights_timestamps[of _ c]
    by (fastforce simp: clear_after_height_entries[OF inv] filter_empty_conv)
  show "cache (blocks_validated (clear_after_height h c)) = []"
    using below cached_heights_blocks_validated[of _ c]
    by (fastforce simp: clear_after_height_entries[OF inv] filter_empty_conv)
  show "cache (block_signatures_validated (clear_after_height h c)) = []"
    using below cached_heights_block_signatures_validated[of _ c]
    by (fastforce simp: clear_after_height_entries[OF inv] filter_empty_conv)
qed

lemma clear_after_height_above:
  assumes inv: "PeerRequestCache_inv c" and above: "\<forall>x \<in> set (cached_heights c). x \<le> h"
  shows "blocks (clear_after_height h c) = blocks c"
    and "block_requests (clear_after_height h c) = block_requests c"
    and "ses_requests (clear_after_height h c) = ses_requests c"
    and "cache (states_validated (clear_after_height h c))
           = filter (\<lambda>(k, v). v \<noteq> None) (cache (states_validated c))"
    and "timestamps (clear_after_height h c) = timestamps c"
    and "blocks_validated (clear_after_height h c) = blocks_validated c"
    and "block_signatures_validated (clear_after_height h c) = block_signatures_validated c"
proof -
  from inv have i: "LRUCache_inv (blocks c)" "LRUCache_inv (block_requests c)"
    "LRUCache_inv (ses_requests c)" "LRUCache_inv (states_validated c)"
    "LRUCache_inv (timestamps c)" "LRUCache_inv (blocks_validated c)"
    "LRUCache_inv (block_signatures_validated c)"
    by (simp_all add: PeerRequestCache_inv_def)
  have "\<forall>p \<in> set (cache (blocks c)). keep_key h (fst p) (snd p)"
    using above cached_heights_blocks[of _ c] by (auto simp: keep_key_def)
  then show "blocks (clear_after_height h c) = blocks c"
    by (simp add: clear_after_height_def rebuild_all[OF i(1)])
  have "\<forall>p \<in> set (cache (block_requests c)). keep_range h (fst p) (snd p)"
    using above cached_heights_block_requests[of _ c] by (auto simp: keep_range_def)
  then show "block_requests (clear_after_height h c) = block_requests c"
    by (simp add: clear_after_height_def rebuild_all[OF i(2)])
  have "\<forall>p \<in> set (cache (ses_requests c)). keep_key h (fst p) (snd p)"
    using above cached_heights_ses_requests[of _ c] by (auto simp: keep_key_def)
  then show "ses_requests (clear_after_height h c) = ses_requests c"
    by (simp add: clear_after_height_def rebuild_all[OF i(3)])
  have "\<forall>p \<in> set (cache (states_validated c)). case snd p of None \<Rightarrow> True | Some x \<Rightarrow> uint x \<le> h"
    using above cached_heights_states_validated[of _ c] by (auto split: option.splits)
  then show "cache (states_validated (clear_after_height h c))
           = filter (\<lambda>(k, v). v \<noteq> None) (cache (states_validated c))"
    by (simp add: clear_after_height_def rebuild_state_all[OF i(4)])
  have "\<forall>p \<in> set (cache (timestamps c)). keep_key h (fst p) (snd p)"
    using above cached_heights_timestamps[of _ c] by (auto simp: keep_key_def)
  then show "timestamps (clear_after_height h c) = timestamps c"
    by (simp add: clear_after_height_def rebuild_all[OF i(5)])
  have "\<forall>p \<in> set (cache (blocks_validated c)). keep_value h (fst p) (snd p)"
    using above cached_heights_blocks_validated[of _ c] by (auto simp: keep_value_def)
  then show "blocks_validated (clear_after_height h c) = blocks_validated c"
    by (simp add: clear_after_height_def rebuild_all[OF i(6)])
  have "\<forall>p \<in> set (cache (block_signatures_validated c)). keep_value h (fst p) (snd p)"
    using above cached_heights_block_signatures_validated[of _ c] by (auto simp: keep_value_def)
  then show "block_signatures_validated (clear_after_height h c) = block_signatures_validated c"
    by (simp add: clear_after_height_def rebuild_all[OF i(7)])
qed

text \<open>
  C3, as stated, fails. It says that a cutoff at or above every cached height preserves
  all contents; an entry of StatesValidated stored with \<open>None\<close> has no height and is
  dropped by every truncation. In the sample state every cached height is at most 15,
  and the truncation at 15 drops the entry of the coin state without heights.
\<close>

theorem clear_after_height_drops_unknown_heights:
  "PeerRequestCache_inv sample_state
   \<and> cached_heights sample_state = [3, 12, 3, 8, 5, 15, 4, 5, 3, 3, 12]
   \<and> contents (states_validated sample_state) [1] = Some None
   \<and> contents (states_validated (clear_after_height 15 sample_state)) [1] = None"
  using sample_state_inv
  by (simp add: cached_heights_def clear_after_height_def rebuild_filter keep_state_def
      PeerRequestCache_inv_def contents_def sample_state_eq)

text \<open>
  C3, amended. After \<open>clear_after_height(h)\<close> each of the seven domain caches holds
  exactly those of its prior entries, with unchanged values, that satisfy its keep rule:
  Blocks, SesRequests and Timestamps keep the entries whose key height is at most \<open>h\<close>;
  BlockRequests keeps a (start, end) entry only if both endpoints are at most \<open>h\<close>;
  StatesValidated keeps an entry only if its stored height is not \<open>None\<close> and is at
  most \<open>h\<close>; BlocksValidated and BlockSignaturesValidated keep the entries whose stored
  height is at most \<open>h\<close>. In particular a cutoff below every cached height yields empty
  caches, and a cutoff at or above every cached height preserves all contents except
  the entries of StatesValidated stored with \<open>None\<close>, which are dropped.
\<close>

theorem clear_after_height_keep_rules:
  assumes "PeerRequestCache_inv c"
  shows "cache (blocks (clear_after_height h c))
           = filter (\<lambda>(k, v). uint k \<le> h) (cache (blocks c))
       \<and> cache (block_requests (clear_after_height h c))
           = filter (\<lambda>((s, e), v). uint s \<le> h \<and> uint e \<le> h) (cache (block_requests c))
       \<and> cache (ses_requests (clear_after_height h c))
           = filter (\<lambda>(k, v). uint k \<le> h) (cache (ses_requests c))
       \<and> cache (states_validated (clear_after_height h c))
           = filter (\<lambda>(k, v). case v of None \<Rightarrow> False | Some x \<Rightarrow> uint x \<le> h)
               (cache (states_validated c))
       \<and> cache (timestamps (clear_after_height h c))
           = filter (\<lambda>(k, v). uint k \<le> h) (cache (timestamps c))
       \<and> cache (blocks_validated (clear_after_height h c))
           = filter (\<lambda>(k, v). uint v \<le> h) (cache (blocks_validated c))
       \<and> cache (block_signatures_validated (clear_after_height h c))
           = filter (\<lambda>(k, v). uint v \<le> h) (cache (block_signatures_validated c))
       \<and> ((\<forall>x \<in> set (cached_heights c). h < x) \<longrightarrow>
             cache (blocks (clear_after_height h c)) = []
           \<and> cache (block_requests (clear_after_height h c)) = []
           \<and> cache (ses_requests (clear_after_height h c)) = []
           \<and> cache (states_validated (clear_after_height h c)) = []
           \<and> cache (timestamps (clear_after_height h c)) = []
           \<and> cache (blocks_validated (clear_after_height h c)) = []
           \<and> cache (block_signatures_validated (clear_after_height h c)) = [])
       \<and> ((\<forall>x \<in> set (cached_heights c). x \<le> h) \<longrightarrow>
             blocks (clear_after_height h c) = blocks c
           \<and> block_requests (clear_after_height h c) = block_requests c
           \<and> ses_requests (clear_after_height h c) = ses_requests c
           \<and> cache (states_validated (clear_after_height h c))
               = filter (\<lambda>(k, v). v \<noteq> None) (cache (states_validated c))
           \<and> timestamps (clear_after_height h c) = timestamps c
           \<and> blocks_validated (clear_after_height h c) = blocks_validated c
           \<and> block_signatures_validated (clear_after_height h c) = block_signatures_validated c)"
proof -
  note e = clear_after_height_entries[OF assms, of h]
  have below: "(\<forall>x \<in> set (cached_heights c). h < x) \<longrightarrow>
             cache (blocks (clear_after_height h c)) = []
           \<and> cache (block_requests (clear_after_height h c)) = []
           \<and> cache (ses_requests (clear_after_height h c)) = []
           \<and> cache (states_validated (clear_after_height h c)) = []
           \<and> cache (timestamps (clear_after_height h c)) = []
           \<and> cache (blocks_validated (clear_after_height h c)) = []
           \<and> cache (block_signatures_validated (clear_after_height h c)) = []"
    using clear_after_height_below[OF assms, of h] by blast
  have above: "(\<forall>x \<in> set (cached_heights c). x \<le> h) \<longrightarrow>
             blocks (clear_after_height h c) = blocks c
           \<and> block_requests (clear_after_height h c) = block_requests c
           \<and> ses_requests (clear_after_height h c) = ses_requests c
           \<and> cache (states_validated (clear_after_height h c))
               = filter (\<lambda>(k, v). v \<noteq> None) (cache (states_validated c))
           \<and> timestamps (clear_after_height h c) = timestamps c
           \<and> blocks_validated (clear_after_height h c) = blocks_validated c
           \<and> block_signatures_validated (clear_after_height h c) = block_signatures_validated c"
    using clear_after_height_above[OF assms, of h] by blast
  from e(1) e(2) e(3) e(4) e(5) e(6) e(7) below above show ?thesis
    by blast
qed

theorem clear_after_height_keep_rules_witness:
  "PeerRequestCache_inv sample_state
   \<and> cached_heights sample_state = [3, 12, 3, 8, 5, 15, 4, 5, 3, 3, 12]
   \<and> map fst (cache (blocks (clear_after_height 10 sample_state))) = [3]
   \<and> cache (block_requests (clear_after_height 10 sample_state)) = [((3, 8), ())]
   \<and> cache (ses_requests (clear_after_height 10 sample_state)) = [(4, ())]
   \<and> cache (states_validated (clear_after_height 10 sample_state)) = [([2], Some 5)]
   \<and> cache (timestamps (clear_after_height 10 sample_state)) = [(3, 100)]
   \<and> cache (blocks_validated (clear_after_height 10 sample_state)) = [([4], 3)]
   \<and> cache (block_signatures_validated (clear_after_height 10 sample_state)) = []
   \<and> cache (blocks (clear_after_height 2 sample_state)) = []
   \<and> cache (states_validated (clear_after_height 2 sample_state)) = []
   \<and> blocks (clear_after_height 15 sample_state) = blocks sample_state
   \<and> cache (states_validated (clear_after_height 15 sample_state)) = [([2], Some 5)]"
  using sample_state_inv
    clear_after_height_keep_rules[OF sample_state_inv, of 10]
    clear_after_height_keep_rules[OF sample_state_inv, of 2]
    clear_after_height_keep_rules[OF sample_state_inv, of 15]
  by (simp add: sample_state_eq cached_heights_def)

text \<open>
  C7. Calling \<open>clear_after_height(h)\<close> twice in a row yields the same state, and so the
  same key-to-value contents of each of the seven domain caches, as calling it once.
\<close>

theorem clear_after_height_idempotent:
  "clear_after_height h (clear_after_height h c) = clear_after_height h c
   \<and> contents (blocks (clear_after_height h (clear_after_height h c)))
       = contents (blocks (clear_after_height h c))
   \<and> contents (block_requests (clear_after_height h (clear_after_height h c)))
       = contents (block_requests (clear_after_height h c))
   \<and> contents (ses_requests (clear_after_height h (clear_after_height h c)))
       = contents (ses_requests (clear_after_height h c))
   \<and> contents (states_validated (clear_after_height h (clear_after_height h c)))
       = contents (states_validated (clear_after_height h c))
   \<and> contents (timestamps (clear_after_height h (clear_after_height h c)))
       = contents (timestamps (clear_after_height h c))
   \<and> contents (blocks_validated (clear_after_height h (clear_after_height h c)))
       = contents (blocks_validated (clear_after_height h c))
   \<and> contents (block_signatures_validated (clear_after_height h (clear_after_height h c)))
       = contents (block_signatures_validated (clear_after_height h c))"
proof -
  have "clear_after_height h (clear_after_height h c) = clear_after_height h c"
    by (simp add: clear_after_height_def rebuild_twice)
  then show ?thesis by simp
qed

text \<open>
  C10. \<open>clear_after_height\<close> keeps the capacity of every domain cache, since each
  replacement cache is made with the capacity of the cache it replaces. The capacities
  of a new \<open>PeerRequestCache\<close> are 100, 100, 100, 1000, 1000, 1000, 1000 (Blocks,
  BlockRequests, SesRequests, StatesValidated, Timestamps, BlocksValidated,
  BlockSignaturesValidated), and they are the same after any sequence of operations,
  truncations included.
\<close>

theorem capacities_invariant:
  "capacities (clear_after_height h c) = capacities c
   \<and> capacities (PeerRequestCache_init :: ('task, 'ses) PeerRequestCache)
       = [100, 100, 100, 1000, 1000, 1000, 1000]
   \<and> capacities (run get_hash std_hash ops (PeerRequestCache_init :: ('task, 'ses) PeerRequestCache))
       = [100, 100, 100, 1000, 1000, 1000, 1000]"
proof -
  have a: "capacities (clear_after_height h c) = capacities c"
    by (simp add: capacities_def clear_after_height_def rebuild_capacity)
  have b: "capacities (PeerRequestCache_init :: ('task, 'ses) PeerRequestCache)
       = [100, 100, 100, 1000, 1000, 1000, 1000]"
    by (simp add: capacities_def PeerRequestCache_init_def LRUCache_init_def)
  from a b show ?thesis by (simp add: run_capacities)
qed

section \<open>Block signatures\<close>

text \<open>
  C5. Two header blocks that agree on the proof-of-space public key bytes, the foliage
  block-data bytes and the foliage block-data signature bytes have the same signature
  hash, whatever their heights; and after \<open>add_to_block_signatures_validated\<close> of the
  first, \<open>in_block_signatures_validated\<close> of the second returns true. (The cache has
  room for at least one entry.)
\<close>

theorem sig_hash_ignores_height:
  assumes "plot_public_key (proof_of_space (reward_chain_block b1))
             = plot_public_key (proof_of_space (reward_chain_block b2))"
    and "foliage_block_data (foliage b1) = foliage_block_data (foliage b2)"
    and "foliage_block_data_signature (foliage b1) = foliage_block_data_signature (foliage b2)"
    and "0 < capacity (block_signatures_validated c)"
  shows "calculate_sig_hash_from_block std_hash b1 = calculate_sig_hash_from_block std_hash b2
         \<and> fst (in_block_signatures_validated std_hash b2
                  (add_to_block_signatures_validated std_hash b1 c))"
proof -
  from assms(1-3)
  have eq: "calculate_sig_hash_from_block std_hash b1 = calculate_sig_hash_from_block std_hash b2"
    by (simp add: calculate_sig_hash_from_block_def)
  have "contents (LRUCache_put (calculate_sig_hash_from_block std_hash b2) (height b1)
                    (block_signatures_validated c))
          (calculate_sig_hash_from_block std_hash b2) = Some (height b1)"
    using assms(4) by (rule LRUCache_put_hit)
  with eq show ?thesis
    by (simp add: in_block_signatures_validated_def add_to_block_signatures_validated_def
        Let_def split_beta LRUCache_get_fst)
qed

theorem sig_hash_ignores_height_witness:
  "height (sample_block 4 False None) \<noteq> height (sample_block 9 True (Some 17))
   \<and> 0 < capacity (block_signatures_validated empty_cache)
   \<and> calculate_sig_hash_from_block id (sample_block 4 False None)
       = calculate_sig_hash_from_block id (sample_block 9 True (Some 17))
   \<and> fst (in_block_signatures_validated id (sample_block 9 True (Some 17))
            (add_to_block_signatures_validated id (sample_block 4 False None) empty_cache))"
proof -
  have h: "0 < capacity (block_signatures_validated empty_cache)"
    by (simp add: empty_cache_def PeerRequestCache_init_def LRUCache_init_def)
  have d: "height (sample_block 4 False None) \<noteq> height (sample_block 9 True (Some 17))"
    by (simp add: sample_block_def)
  from d h
    sig_hash_ignores_height[of "sample_block 4 False None" "sample_block 9 True (Some 17)"
      empty_cache id, OF _ _ _ h]
  show ?thesis by (simp add: sample_block_def)
qed

section \<open>Blocks and timestamps\<close>

lemma add_to_blocks_timestamps:
  "timestamps (snd (add_to_blocks b c)) =
     (if is_transaction_block b then
        (case foliage_transaction_block b of
           None \<Rightarrow> timestamps c
         | Some f \<Rightarrow>
             (if contents (timestamps c) (height b) = None
              then LRUCache_put (height b) (timestamp f) (timestamps c)
              else snd (LRUCache_get (height b) (timestamps c))))
      else timestamps c)"
proof -
  have "fst (LRUCache_get (height b) (timestamps c)) = None
        \<Longrightarrow> snd (LRUCache_get (height b) (timestamps c)) = timestamps c"
    by (simp add: LRUCache_get_fst LRUCache_get_miss)
  then show ?thesis
    by (simp add: add_to_blocks_def Let_def split_beta LRUCache_get_fst split: option.splits)
qed

lemma add_to_blocks_records_only_fresh:
  assumes inv: "LRUCache_inv (timestamps c)"
    and hit: "contents (timestamps (snd (add_to_blocks b c))) h = Some t"
  shows "contents (timestamps c) h = Some t
         \<or> (is_transaction_block b \<and> height b = h \<and> contents (timestamps c) h = None
            \<and> map_option timestamp (foliage_transaction_block b) = Some t)"
proof (cases "is_transaction_block b \<and> foliage_transaction_block b \<noteq> None
              \<and> contents (timestamps c) (height b) = None")
  case True
  then obtain f where f: "foliage_transaction_block b = Some f" by auto
  with True have "timestamps (snd (add_to_blocks b c))
                  = LRUCache_put (height b) (timestamp f) (timestamps c)"
    by (simp add: add_to_blocks_timestamps)
  with hit LRUCache_put_contents_cases[OF inv, of "height b" "timestamp f" h t]
  have "(h = height b \<and> t = timestamp f) \<or> contents (timestamps c) h = Some t" by simp
  with True f show ?thesis by auto
next
  case False
  then have "contents (timestamps (snd (add_to_blocks b c))) = contents (timestamps c)"
    by (auto simp: add_to_blocks_timestamps LRUCache_get_contents split: option.splits)
  with hit show ?thesis by simp
qed

lemma add_to_blocks_timestamp_at_height:
  assumes cap: "0 < capacity (timestamps c)"
    and tx: "is_transaction_block b" and f: "foliage_transaction_block b = Some f"
  shows "contents (timestamps (snd (add_to_blocks b c))) (height b)
         = (case contents (timestamps c) (height b) of
              None \<Rightarrow> Some (timestamp f) | Some t0 \<Rightarrow> Some t0)"
  using tx f LRUCache_put_hit[OF cap, of "height b" "timestamp f"]
  by (auto simp: add_to_blocks_timestamps LRUCache_get_contents split: option.splits)

lemma add_to_blocks_timestamps_capacity:
  "capacity (timestamps (snd (add_to_blocks b c))) = capacity (timestamps c)"
  by (simp add: add_to_blocks_timestamps LRUCache_put_capacity LRUCache_get_capacity
      split: option.splits)

text \<open>
  C6. \<open>add_to_blocks\<close> records a timestamp at a height only when the added block is a
  transaction block and no timestamp is recorded for that height yet: every timestamp
  in the cache after the call was there before, or is the timestamp of the added
  transaction block at a height that had none. Adding a block that is not a
  transaction block leaves the Timestamps cache as it was. Adding two transaction
  blocks of the same height leaves \<open>get_height_timestamp\<close> returning the timestamp of
  the first addition, or the timestamp recorded before both if there was one.
\<close>

theorem add_to_blocks_timestamp_first_write_wins:
  assumes inv: "LRUCache_inv (timestamps c)" and cap: "0 < capacity (timestamps c)"
  shows "(contents (timestamps (snd (add_to_blocks b c))) h = Some t \<longrightarrow>
            contents (timestamps c) h = Some t
            \<or> (is_transaction_block b \<and> height b = h \<and> contents (timestamps c) h = None
               \<and> map_option timestamp (foliage_transaction_block b) = Some t))
         \<and> (\<not> is_transaction_block b \<longrightarrow> timestamps (snd (add_to_blocks b c)) = timestamps c)
         \<and> (is_transaction_block b1 \<and> is_transaction_block b2
            \<and> height b1 = h \<and> height b2 = h
            \<and> foliage_transaction_block b1 = Some f1 \<and> foliage_transaction_block b2 = Some f2 \<longrightarrow>
              fst (get_height_timestamp h (snd (add_to_blocks b2 (snd (add_to_blocks b1 c)))))
              = (case contents (timestamps c) h of
                   None \<Rightarrow> Some (timestamp f1) | Some t0 \<Rightarrow> Some t0))"
proof (intro conjI impI)
  assume "contents (timestamps (snd (add_to_blocks b c))) h = Some t"
  with inv show "contents (timestamps c) h = Some t
     \<or> (is_transaction_block b \<and> height b = h \<and> contents (timestamps c) h = None
        \<and> map_option timestamp (foliage_transaction_block b) = Some t)"
    by (rule add_to_blocks_records_only_fresh)
next
  assume "\<not> is_transaction_block b"
  then show "timestamps (snd (add_to_blocks b c)) = timestamps c"
    by (simp add: add_to_blocks_timestamps)
next
  assume a: "is_transaction_block b1 \<and> is_transaction_block b2
            \<and> height b1 = h \<and> height b2 = h
            \<and> foliage_transaction_block b1 = Some f1 \<and> foliage_transaction_block b2 = Some f2"
  let ?c1 = "snd (add_to_blocks b1 c)"
  have cap1: "0 < capacity (timestamps ?c1)"
    using cap by (simp add: add_to_blocks_timestamps_capacity)
  have one: "contents (timestamps ?c1) h
         = (case contents (timestamps c) h of None \<Rightarrow> Some (timestamp f1) | Some t0 \<Rightarrow> Some t0)"
    using add_to_blocks_timestamp_at_height[OF cap, of b1 f1] a by simp
  have two: "contents (timestamps (snd (add_to_blocks b2 ?c1))) h
         = (case contents (timestamps ?c1) h of None \<Rightarrow> Some (timestamp f2) | Some t0 \<Rightarrow> Some t0)"
    using add_to_blocks_timestamp_at_height[OF cap1, of b2 f2] a by simp
  have "fst (get_height_timestamp h (snd (add_to_blocks b2 ?c1)))
        = contents (timestamps (snd (add_to_blocks b2 ?c1))) h"
    by (simp add: get_height_timestamp_def split_beta LRUCache_get_fst)
  with one two
  show "fst (get_height_timestamp h (snd (add_to_blocks b2 (snd (add_to_blocks b1 c)))))
        = (case contents (timestamps c) h of None \<Rightarrow> Some (timestamp f1) | Some t0 \<Rightarrow> Some t0)"
    by (simp split: option.splits)
qed

theorem add_to_blocks_timestamp_first_write_wins_witness:
  "LRUCache_inv (timestamps empty_cache) \<and> 0 < capacity (timestamps empty_cache)
   \<and> timestamps (snd (add_to_blocks (sample_block 7 False None) empty_cache))
       = timestamps empty_cache
   \<and> fst (get_height_timestamp 7
            (snd (add_to_blocks (sample_block 7 True (Some 200))
                   (snd (add_to_blocks (sample_block 7 True (Some 100)) empty_cache)))))
       = Some 100"
proof -
  have i: "LRUCache_inv (timestamps empty_cache)" and p: "0 < capacity (timestamps empty_cache)"
    by (simp_all add: empty_cache_timestamps)
  from i p
    add_to_blocks_timestamp_first_write_wins[OF i p, of "sample_block 7 False None" 7 0
      "sample_block 7 True (Some 100)" "sample_block 7 True (Some 200)"
      "\<lparr>timestamp = 100\<rparr>" "\<lparr>timestamp = 200\<rparr>"]
  show ?thesis by (simp add: sample_block_def empty_cache_timestamps)
qed

text \<open>
  C8. A header block whose \<open>is_transaction_block\<close> flag is true and whose
  \<open>foliage_transaction_block\<close> is absent makes \<open>add_to_blocks\<close> fail its assertion,
  with no timestamp recorded; when every transaction block carries its
  \<open>foliage_transaction_block\<close>, the assertion does not fail.
\<close>

theorem add_to_blocks_assertion:
  "(is_transaction_block b \<and> foliage_transaction_block b = None \<longrightarrow>
      fst (add_to_blocks b c) = Inl AssertionError
      \<and> timestamps (snd (add_to_blocks b c)) = timestamps c)
   \<and> ((is_transaction_block b \<longrightarrow> foliage_transaction_block b \<noteq> None) \<longrightarrow>
      fst (add_to_blocks b c) = Inr ())"
  by (auto simp: add_to_blocks_def Let_def split_beta split: option.splits)

theorem add_to_blocks_assertion_witness:
  "is_transaction_block (sample_block 3 True None)
   \<and> foliage_transaction_block (sample_block 3 True None) = None
   \<and> fst (add_to_blocks (sample_block 3 True None) empty_cache) = Inl AssertionError
   \<and> timestamps (snd (add_to_blocks (sample_block 3 True None) empty_cache)) = timestamps empty_cache
   \<and> foliage_transaction_block (sample_block 3 True (Some 17)) \<noteq> None
   \<and> fst (add_to_blocks (sample_block 3 True (Some 17)) empty_cache) = Inr ()"
  using add_to_blocks_assertion[of "sample_block 3 True None" empty_cache]
        add_to_blocks_assertion[of "sample_block 3 True (Some 17)" empty_cache]
  by (simp add: sample_block_def)

end
